theory Spec2Isabelle
  imports Main "HOL-Library.Sublist"
begin

section \<open>Strings\<close>

text \<open>
  \<^verbatim>\<open>String.prototype.includes\<close>: \<open>str_includes s sub\<close> holds when \<open>sub\<close> occurs in \<open>s\<close>
  as a contiguous run of characters. The comparison is case-sensitive.
\<close>

fun str_includes :: "string \<Rightarrow> string \<Rightarrow> bool" where
  "str_includes [] sub = (sub = [])"
| "str_includes (c # cs) sub = (prefix sub (c # cs) \<or> str_includes cs sub)"

text \<open>\<^verbatim>\<open>String.prototype.substring(0, n)\<close>: the first \<open>n\<close> characters, fewer when the string is shorter.\<close>

definition substring0 :: "string \<Rightarrow> nat \<Rightarrow> string" where
  "substring0 s n = take n s"

section \<open>The exception wrapper (\<^verbatim>\<open>infra/drive-server-wip/in/exception-wrapper.ts\<close>)\<close>

subsection \<open>Raised values\<close>

text \<open>What a function raises instead of returning.\<close>

datatype thrown = TypeError string | Error string

text \<open>
  A JavaScript value as far as conditions look at it: the boolean \<^verbatim>\<open>true\<close>, another truthy
  value, or a falsy value (\<^verbatim>\<open>false\<close> among them). \<^verbatim>\<open>a || b\<close> yields \<^verbatim>\<open>a\<close> when it is truthy and
  \<^verbatim>\<open>b\<close> otherwise; \<^verbatim>\<open>switch (true) { case x: ... }\<close> selects the case only when \<^verbatim>\<open>x === true\<close>.
\<close>

datatype truth = IsTrue | Truthy | Falsy

text \<open>
  The \<^verbatim>\<open>message\<close> property of a \<^verbatim>\<open>SyntaxError\<close>. Its declared type is \<^verbatim>\<open>string\<close>, but the wrapper
  takes \<^verbatim>\<open>exc: unknown\<close> and any value can stand there at run time. \<open>Str s\<close> is the string
  \<open>s\<close>. \<open>NotStr f\<close> is a value that is not a string, and \<open>f sub\<close> is the outcome of
  \<^verbatim>\<open>message.includes(sub)\<close> on it: a \<^verbatim>\<open>TypeError\<close> when the value has no such method
  (\<^verbatim>\<open>undefined\<close>, a number), and what the method returns otherwise (an array).
\<close>

datatype message = Str string | NotStr "string \<Rightarrow> thrown + truth"

fun message_includes :: "message \<Rightarrow> string \<Rightarrow> thrown + truth" where
  "message_includes (Str s) sub = Inr (if str_includes s sub then IsTrue else Falsy)"
| "message_includes (NotStr f) sub = f sub"

text \<open>\<^verbatim>\<open>a || b\<close>, where evaluating \<^verbatim>\<open>a\<close> or \<^verbatim>\<open>b\<close> may raise; \<^verbatim>\<open>b\<close> is evaluated only when \<^verbatim>\<open>a\<close> is falsy.\<close>

fun or_else :: "thrown + truth \<Rightarrow> thrown + truth \<Rightarrow> thrown + truth" where
  "or_else (Inl t) b = Inl t"
| "or_else (Inr Falsy) b = b"
| "or_else (Inr a) b = Inr a"

text \<open>
  The wrapper receives \<^verbatim>\<open>exc: unknown\<close>. The code looks at three things only: whether the value
  is an instance of \<^verbatim>\<open>SyntaxError\<close>, whether it is an instance of \<^verbatim>\<open>Error\<close>, and then its
  \<^verbatim>\<open>message\<close> or its \<^verbatim>\<open>String(exc)\<close> rendering.

  \<open>SyntaxError m v\<close> is an instance of \<^verbatim>\<open>SyntaxError\<close> (and so of \<^verbatim>\<open>Error\<close>) with message \<open>m\<close>;
  \<open>OtherError nm m v\<close> is any other instance of \<^verbatim>\<open>Error\<close>, with its name and message (a
  \<^verbatim>\<open>DOMException\<close> named \<^verbatim>\<open>AbortError\<close>, a \<^verbatim>\<open>TypeError\<close> of \<^verbatim>\<open>fetch\<close>); \<open>NonError s v\<close> is a value that
  is not an \<^verbatim>\<open>Error\<close>, with its \<^verbatim>\<open>String\<close> rendering, which is \<open>None\<close> when \<^verbatim>\<open>String(exc)\<close> raises (an
  object without prototype, for instance). In each case \<open>v\<close> is everything else about the
  value (its other properties, such as \<^verbatim>\<open>cause\<close>): the wrapper never reads it, the imported
  predicates and the schema may.
\<close>

datatype 'v exc =
    SyntaxError message 'v
  | OtherError string string 'v
  | NonError "string option" 'v

text \<open>\<^verbatim>\<open>exc instanceof Error ? exc.message : String(exc)\<close>\<close>

fun message_or_String :: "'v exc \<Rightarrow> thrown + message" where
  "message_or_String (SyntaxError m v) = Inr m"
| "message_or_String (OtherError nm m v) = Inr (Str m)"
| "message_or_String (NonError (Some s) v) = Inr (Str s)"
| "message_or_String (NonError None v) =
     Inl (TypeError ''Cannot convert object to primitive value'')"

subsection \<open>What is logged and what is returned\<close>

text \<open>
  The value logged under the key \<^verbatim>\<open>exc\<close>: the data of the parsed fetch exception
  (\<^verbatim>\<open>undefined\<close> when the schema rejects the value), a fixed string, the JSON diagnostic
  context with its fields \<^verbatim>\<open>error\<close>, \<^verbatim>\<open>message\<close> and \<^verbatim>\<open>hint\<close> in this order, or the raised
  value itself.
\<close>

datatype ('v, 'p) logged_exc =
    Parsed "'p option"
  | Text string
  | Context string message string
  | Raw "'v exc"

text \<open>
  \<^verbatim>\<open>TLoggerBody\<close>: the message and the other properties of the caller's object, by name.
\<close>

record TLoggerBody =
  msg :: string
  rest :: "string \<rightharpoonup> string"

record ('v, 'p) error_body = TLoggerBody +
  retry :: int
  exc :: "('v, 'p) logged_exc"

text \<open>
  The object handed to \<^verbatim>\<open>logger.error\<close>:
  \<^verbatim>\<open>{ ...loggerBody, msg: `${loggerBody.msg} was not successful`, retry, exc: excMessage }\<close>.
  The properties written after the spread replace those of the same name in \<^verbatim>\<open>loggerBody\<close>.
\<close>

definition logged_body :: "TLoggerBody \<Rightarrow> int \<Rightarrow> ('v, 'p) logged_exc \<Rightarrow> ('v, 'p) error_body" where
  "logged_body loggerBody r excMessage =
     \<lparr>msg = msg loggerBody @ '' was not successful'',
      rest = rest loggerBody |` (- {''retry'', ''exc''}),
      retry = r, exc = excMessage\<rparr>"

datatype error_code = NETWORK | ABORTED | UNKNOWN

record 'r DriveServerWipError =
  code :: error_code
  cause :: 'r

text \<open>
  What the module imports and the model takes as parameters: the two predicates and the
  schema of \<^verbatim>\<open>helpers/error-helpers\<close>, the issue constant of the same module, the value that
  \<^verbatim>\<open>logger.error\<close> returns, and \<^verbatim>\<open>process.type\<close>. \<open>safeParse_data\<close> is
  \<^verbatim>\<open>fetchExceptionSchema.safeParse(exc).data\<close>. The predicates, the schema and the logger are
  taken to return.
\<close>

record ('v, 'p, 'i, 'r) deps =
  isAbortError :: "'v exc \<Rightarrow> bool"
  isNetworkConnectivityError :: "'v exc \<Rightarrow> bool"
  safeParse_data :: "'v exc \<Rightarrow> 'p option"
  networkErrorIssue :: 'i
  logger_returns :: "('v, 'p) error_body \<Rightarrow> 'r"
  process_type :: "string option"

text \<open>The effects of the wrapper on its surroundings, in the order in which they happen.\<close>

datatype ('v, 'p, 'i) effect =
    Logger_error "('v, 'p) error_body"
  | Ipc_send string 'i
  | AddGeneralIssue 'i

fun logged :: "('v, 'p, 'i) effect list \<Rightarrow> ('v, 'p) error_body list" where
  "logged [] = []"
| "logged (Logger_error b # es) = b # logged es"
| "logged (e # es) = logged es"

fun notified :: "('v, 'p, 'i) effect list \<Rightarrow> ('v, 'p, 'i) effect list" where
  "notified [] = []"
| "notified (Logger_error b # es) = notified es"
| "notified (e # es) = e # notified es"

subsection \<open>The functions\<close>

text \<open>
  For an instance of \<^verbatim>\<open>SyntaxError\<close> the function calls \<^verbatim>\<open>message.includes\<close> up to four times,
  joined by \<^verbatim>\<open>||\<close>; it raises when such a call raises. For any other value it returns
  \<^verbatim>\<open>false\<close>.
\<close>

fun isJsonParseException :: "'v exc \<Rightarrow> thrown + truth" where
  "isJsonParseException (SyntaxError message v) =
     or_else
       (or_else
          (or_else (message_includes message ''Unexpected token'')
                   (message_includes message ''JSON''))
          (message_includes message ''Unexpected end of JSON''))
       (message_includes message ''Unexpected string in JSON'')"
| "isJsonParseException _ = Inr Falsy"

record ('v, 'p) parsed =
  isAbort :: bool
  isNetwork :: bool
  isJsonParseError :: truth
  excMessage :: "('v, 'p) logged_exc"

definition json_hint :: string where
  "json_hint = ''The server may have returned HTML or another non-JSON response. Check the logs above for response details.''"

text \<open>
  The three tests are made before the \<^verbatim>\<open>switch\<close>, in the order abort, network, JSON; a
  raise of the third leaves \<open>parseException\<close> at once.
\<close>

definition parseException ::
  "('v, 'p, 'i, 'r) deps \<Rightarrow> 'v exc \<Rightarrow> thrown + ('v, 'p) parsed" where
  "parseException d e =
     (let isAbort = isAbortError d e;
          isNetwork = isNetworkConnectivityError d e
      in case isJsonParseException e of
           Inl t \<Rightarrow> Inl t
         | Inr isJson \<Rightarrow>
             if isNetwork then
               Inr \<lparr>isAbort = isAbort, isNetwork = isNetwork,
                    isJsonParseError = isJson,
                    excMessage = Parsed (safeParse_data d e)\<rparr>
             else if isAbort then
               Inr \<lparr>isAbort = isAbort, isNetwork = isNetwork,
                    isJsonParseError = isJson,
                    excMessage = Text ''Aborted''\<rparr>
             else if isJson = IsTrue then
               (case message_or_String e of
                  Inl t \<Rightarrow> Inl t
                | Inr m \<Rightarrow>
                    Inr \<lparr>isAbort = isAbort, isNetwork = isNetwork,
                         isJsonParseError = isJson,
                         excMessage = Context ''JSON Parse Error'' m json_hint\<rparr>)
             else
               Inr \<lparr>isAbort = isAbort, isNetwork = isNetwork,
                    isJsonParseError = isJson,
                    excMessage = Raw e\<rparr>)"


text \<open>
  \<^verbatim>\<open>ipcRendererSyncEngine.send('ADD_GENERAL_ISSUE', networkErrorIssue)\<close> in a renderer process,
  \<^verbatim>\<open>addGeneralIssue(networkErrorIssue)\<close> otherwise.
\<close>

definition send_issue :: "('v, 'p, 'i, 'r) deps \<Rightarrow> ('v, 'p, 'i) effect" where
  "send_issue d =
     (if process_type d = Some ''renderer''
      then Ipc_send ''ADD_GENERAL_ISSUE'' (networkErrorIssue d)
      else AddGeneralIssue (networkErrorIssue d))"

text \<open>
  The wrapper returns what it returns or raises together with the effects so far. A raise
  of \<open>parseException\<close> comes before the call of the logger, so nothing has happened then.
\<close>

definition exceptionWrapper ::
  "('v, 'p, 'i, 'r) deps \<Rightarrow> TLoggerBody \<Rightarrow> 'v exc \<Rightarrow> int \<Rightarrow> ('v, 'p, 'i) effect list
     \<Rightarrow> (thrown + 'r DriveServerWipError) \<times> ('v, 'p, 'i) effect list" where
  "exceptionWrapper d loggerBody e r tr =
     (case parseException d e of
        Inl t \<Rightarrow> (Inl t, tr)
      | Inr p \<Rightarrow>
          (let body = logged_body loggerBody r (excMessage p);
               loggedError = logger_returns d body;
               tr1 = tr @ [Logger_error body]
           in if isNetwork p then
                (Inr \<lparr>code = NETWORK, cause = loggedError\<rparr>, tr1 @ [send_issue d])
              else if isAbort p then
                (Inr \<lparr>code = ABORTED, cause = loggedError\<rparr>, tr1)
              else
                (Inr \<lparr>code = UNKNOWN, cause = loggedError\<rparr>, tr1)))"

text \<open>The kind of the typed error returned; \<open>None\<close> when the wrapper raised.\<close>

fun returned_code :: "thrown + 'r DriveServerWipError \<Rightarrow> error_code option" where
  "returned_code (Inl t) = None"
| "returned_code (Inr res) = Some (code res)"

subsection \<open>The caller\<close>



section \<open>The HTTP client middleware (\<^verbatim>\<open>apps/shared/HttpClient/client.ts\<close>)\<close>

definition MAX_RESPONSE_BODY_LOG_LENGTH :: nat where
  "MAX_RESPONSE_BODY_LOG_LENGTH = 500"

subsection \<open>Responses\<close>

text \<open>
  A \<^verbatim>\<open>Headers\<close> object is modelled by the entries it enumerates: the names in lower case, one
  entry for each name. \<^verbatim>\<open>get\<close> compares names without regard to case, so it looks up the
  lower-cased name.
\<close>

type_synonym Headers = "(string \<times> string) list"

definition ascii_lower :: "char \<Rightarrow> char" where
  "ascii_lower c =
     (case map_of (zip ''ABCDEFGHIJKLMNOPQRSTUVWXYZ'' ''abcdefghijklmnopqrstuvwxyz'') c of
        Some l \<Rightarrow> l
      | None \<Rightarrow> c)"

definition headers_get :: "Headers \<Rightarrow> string \<Rightarrow> string option" where
  "headers_get hs name = map_of hs (map ascii_lower name)"

text \<open>
  \<^verbatim>\<open>response.headers.forEach((value, key) => { responseHeaders[key] = value })\<close>, starting from
  the empty object \<^verbatim>\<open>{}\<close>. The object is modelled by its own properties, a map from names to
  values; the order in which an object enumerates them is not part of the model. Assigning
  a string to \<^verbatim>\<open>__proto__\<close> on a plain object creates no property.
\<close>

definition headers_record :: "Headers \<Rightarrow> (string \<rightharpoonup> string)" where
  "headers_record hs =
     foldl (\<lambda>responseHeaders (key, v).
              if key = ''__proto__'' then responseHeaders else responseHeaders(key \<mapsto> v))
       Map.empty hs"

text \<open>
  The response as the middleware reads it. \<open>clone_text\<close> is what becomes of
  \<^verbatim>\<open>response.clone()\<close> and of \<^verbatim>\<open>await clonedResponse.text()\<close>: \<open>Inl t\<close> when \<^verbatim>\<open>clone\<close> raises \<open>t\<close>
  (the body was already read), \<open>Inr (Inl t)\<close> when the clone is made and the promise of
  \<^verbatim>\<open>text\<close> rejects with \<open>t\<close>, \<open>Inr (Inr s)\<close> when the body \<open>s\<close> is read.
\<close>

record Response =
  status :: int
  statusText :: string
  headers :: Headers
  clone_text :: "thrown + (thrown + string)"

subsection \<open>Effects\<close>

text \<open>
  The two records the middleware logs. The fields of the first, in this order: \<^verbatim>\<open>endpoint\<close>,
  \<^verbatim>\<open>status\<close>, \<^verbatim>\<open>statusText\<close>, \<^verbatim>\<open>contentType\<close> (\<open>None\<close> for \<^verbatim>\<open>null\<close>), \<^verbatim>\<open>responseHeaders\<close>,
  \<^verbatim>\<open>responseBody\<close>; its \<^verbatim>\<open>msg\<close> is \<^verbatim>\<open>'Unexpected response content type'\<close>. The fields of the
  second: \<^verbatim>\<open>endpoint\<close>, \<^verbatim>\<open>error\<close>; its \<^verbatim>\<open>msg\<close> is \<^verbatim>\<open>'Failed to read response body for logging'\<close>.
\<close>

datatype client_log =
    Unexpected_response_content_type string int string "string option" "string \<rightharpoonup> string" string
  | Failed_to_read_response_body string thrown

datatype client_effect =
    Ipc_emit string
  | EventBus_emit string
  | Client_logger_error client_log

fun client_logged :: "client_effect list \<Rightarrow> client_log list" where
  "client_logged [] = []"
| "client_logged (Client_logger_error r # es) = r # client_logged es"
| "client_logged (e # es) = client_logged es"

fun client_emitted :: "client_effect list \<Rightarrow> client_effect list" where
  "client_emitted [] = []"
| "client_emitted (Client_logger_error r # es) = client_emitted es"
| "client_emitted (e # es) = e # client_emitted es"

subsection \<open>The middleware\<close>

definition handleOnUserUnauthorized :: "string option \<Rightarrow> client_effect list \<Rightarrow> client_effect list" where
  "handleOnUserUnauthorized ptype tr =
     (if ptype = Some ''renderer'' then tr @ [Ipc_emit ''USER_LOGGED_OUT'']
      else tr @ [EventBus_emit ''USER_LOGGED_OUT''])"

text \<open>\<^verbatim>\<open>!x\<close> for \<^verbatim>\<open>x: boolean | undefined\<close> is the negation of \<open>truthy x\<close>.\<close>

fun truthy :: "bool option \<Rightarrow> bool" where
  "truthy None = False"
| "truthy (Some b) = b"

text \<open>
  \<open>onResponse\<close> is asynchronous: its first result is \<open>None\<close> when the promise resolves (with
  \<^verbatim>\<open>undefined\<close>) and \<open>Some t\<close> when it rejects with \<open>t\<close>; its second result is the effects so
  far. \<^verbatim>\<open>response.clone()\<close> stands before the \<^verbatim>\<open>try\<close>, so its raise is not caught; the rejection
  of \<^verbatim>\<open>text()\<close> is.
\<close>

definition onResponse ::
  "string option \<Rightarrow> Response \<Rightarrow> string \<Rightarrow> client_effect list
     \<Rightarrow> thrown option \<times> client_effect list" where
  "onResponse ptype response schemaPath tr =
     (let tr1 = (if status response = 401 then handleOnUserUnauthorized ptype tr else tr);
          contentType = headers_get (headers response) ''content-type'';
          isJsonContentType = map_option (\<lambda>c. str_includes c ''application/json'') contentType;
          isEmptyResponse = (status response = 204 \<or>
                             headers_get (headers response) ''Content-Length'' = Some ''0'');
          shouldLogResponse = (\<not> isEmptyResponse \<and> \<not> truthy isJsonContentType)
      in if shouldLogResponse then
           (case clone_text response of
              Inl t \<Rightarrow> (Some t, tr1)
            | Inr (Inr responseBody) \<Rightarrow>
                (None,
                 tr1 @ [Client_logger_error
                          (Unexpected_response_content_type schemaPath (status response)
                             (statusText response) contentType
                             (headers_record (headers response))
                             (substring0 responseBody MAX_RESPONSE_BODY_LOG_LENGTH))])
            | Inr (Inl error) \<Rightarrow>
                (None,
                 tr1 @ [Client_logger_error (Failed_to_read_response_body schemaPath error)]))
         else (None, tr1))"

section \<open>Fixtures of the test suites\<close>

text \<open>
  \<^verbatim>\<open>exception-wrapper.test.ts\<close> runs the wrapper with the logger replaced by
  \<^verbatim>\<open>vi.fn((body) => body)\<close>, with \<^verbatim>\<open>loggerBody = { msg: 'Test request' }\<close> and \<^verbatim>\<open>retry = 1\<close>.
  \<open>mocked ab nw ptype\<close> is that environment for given answers of the two imported
  predicates and a given \<^verbatim>\<open>process.type\<close>; \<open>accepts\<close> and \<open>rejects\<close> are the two constant answers.
  The raised values of the fixtures have nothing besides what the wrapper reads: their last
  component is \<open>()\<close>.
\<close>

definition accepts :: "unit exc \<Rightarrow> bool" where
  "accepts e = True"

definition rejects :: "unit exc \<Rightarrow> bool" where
  "rejects e = False"

definition mocked ::
  "(unit exc \<Rightarrow> bool) \<Rightarrow> (unit exc \<Rightarrow> bool) \<Rightarrow> string option
     \<Rightarrow> (unit, string, string, (unit, string) error_body) deps" where
  "mocked ab nw ptype =
     \<lparr>isAbortError = ab, isNetworkConnectivityError = nw, safeParse_data = (\<lambda>e. None),
      networkErrorIssue = ''NETWORK_CONNECTIVITY_ERROR'', logger_returns = (\<lambda>body. body),
      process_type = ptype\<rparr>"

definition test_loggerBody :: TLoggerBody where
  "test_loggerBody = \<lparr>msg = ''Test request'', rest = Map.empty\<rparr>"

text \<open>
  A message that is a number, as after \<^verbatim>\<open>Object.assign(new SyntaxError(), { message: 42 })\<close>:
  it has no \<^verbatim>\<open>includes\<close> method. And a message that is \<^verbatim>\<open>undefined\<close>.
\<close>

definition number_message :: message where
  "number_message = NotStr (\<lambda>sub. Inl (TypeError ''message.includes is not a function''))"

definition undefined_message :: message where
  "undefined_message =
     NotStr (\<lambda>sub. Inl (TypeError ''Cannot read properties of undefined (reading includes)''))"

text \<open>The responses of \<^verbatim>\<open>client.test.ts\<close>.\<close>

definition html_error_response :: Response where
  "html_error_response =
     \<lparr>status = 500, statusText = ''Internal Server Error'',
      headers = [(''content-type'', ''text/html''), (''x-custom-header'', ''test-value'')],
      clone_text = Inr (Inr ''<!doctype html><html>Error page</html>'')\<rparr>"

definition json_response :: Response where
  "json_response =
     \<lparr>status = 200, statusText = ''OK'',
      headers = [(''content-type'', ''application/json'')],
      clone_text = Inr (Inr ''{\"data\": \"test\"}'')\<rparr>"

definition no_content_response :: Response where
  "no_content_response =
     \<lparr>status = 204, statusText = ''No Content'',
      headers = [(''content-type'', ''text/plain'')],
      clone_text = Inr (Inr [])\<rparr>"

definition zero_length_response :: Response where
  "zero_length_response =
     \<lparr>status = 200, statusText = ''OK'',
      headers = [(''content-length'', ''0''), (''content-type'', ''text/plain'')],
      clone_text = Inr (Inr [])\<rparr>"

definition unreadable_response :: Response where
  "unreadable_response =
     \<lparr>status = 500, statusText = ''Internal Server Error'',
      headers = [(''content-type'', ''text/html'')],
      clone_text = Inr (Inl (Error ''Failed to read body''))\<rparr>"

section \<open>Auxiliary facts\<close>

text \<open>\<open>str_includes\<close> is the substring relation.\<close>

lemma str_includes_iff: "str_includes s sub \<longleftrightarrow> (\<exists>p q. s = p @ sub @ q)"
proof (induction s)
  case Nil
  show ?case by simp
next
  case (Cons c cs)
  show ?case
  proof
    assume "str_includes (c # cs) sub"
    then consider "prefix sub (c # cs)" | "str_includes cs sub" by auto
    then show "\<exists>p q. c # cs = p @ sub @ q"
    proof cases
      case 1
      then obtain q where "c # cs = sub @ q" by (auto simp: prefix_def)
      then have "c # cs = [] @ sub @ q" by simp
      then show ?thesis by blast
    next
      case 2
      with Cons.IH obtain p q where "cs = p @ sub @ q" by blast
      then have "c # cs = (c # p) @ sub @ q" by simp
      then show ?thesis by blast
    qed
  next
    assume "\<exists>p q. c # cs = p @ sub @ q"
    then obtain p q where pq: "c # cs = p @ sub @ q" by blast
    show "str_includes (c # cs) sub"
    proof (cases p)
      case Nil
      with pq have "prefix sub (c # cs)" by (simp add: prefix_def)
      then show ?thesis by simp
    next
      case (Cons a p')
      with pq have "cs = p' @ sub @ q" by simp
      with Cons.IH have "str_includes cs sub" by blast
      then show ?thesis by simp
    qed
  qed
qed

text \<open>\<^verbatim>\<open>a || b\<close> is \<^verbatim>\<open>true\<close> only when \<^verbatim>\<open>a\<close> or \<^verbatim>\<open>b\<close> is.\<close>

lemma or_else_IsTrue:
  "or_else a b = Inr IsTrue \<Longrightarrow> a = Inr IsTrue \<or> b = Inr IsTrue"
  by (cases "(a, b)" rule: or_else.cases) simp_all


text \<open>It returns \<^verbatim>\<open>true\<close> only for a \<^verbatim>\<open>SyntaxError\<close> on whose message one of the four calls did.\<close>

lemma isJsonParseException_IsTrue:
  assumes "isJsonParseException e = Inr IsTrue"
  shows "\<exists>m v. e = SyntaxError m v \<and>
           (message_includes m ''Unexpected token'' = Inr IsTrue \<or>
            message_includes m ''JSON'' = Inr IsTrue \<or>
            message_includes m ''Unexpected end of JSON'' = Inr IsTrue \<or>
            message_includes m ''Unexpected string in JSON'' = Inr IsTrue)"
proof (cases e)
  case (SyntaxError m v)
  with assms show ?thesis
    by (auto dest!: or_else_IsTrue)
next
  case (OtherError nm m v)
  with assms show ?thesis by simp
next
  case (NonError s v)
  with assms show ?thesis by simp
qed

text \<open>
  \<open>parseException\<close> raises exactly when the recogniser does. \<^verbatim>\<open>String(exc)\<close>, the other
  operation in it that can raise, is evaluated only for an instance of \<^verbatim>\<open>SyntaxError\<close>, where
  the conditional takes \<^verbatim>\<open>exc.message\<close> instead.
\<close>

lemma parseException_raises:
  "isJsonParseException e = Inl t \<Longrightarrow> parseException d e = Inl t"
  by (simp add: parseException_def Let_def)

lemma parseException_returns:
  assumes "isJsonParseException e = Inr j"
  shows "parseException d e =
     Inr \<lparr>isAbort = isAbortError d e, isNetwork = isNetworkConnectivityError d e,
          isJsonParseError = j,
          excMessage =
            (if isNetworkConnectivityError d e then Parsed (safeParse_data d e)
             else if isAbortError d e then Text ''Aborted''
             else if j = IsTrue
               then Context ''JSON Parse Error''
                      (case e of SyntaxError m v \<Rightarrow> m | _ \<Rightarrow> Str []) json_hint
             else Raw e)\<rparr>"
proof (cases "j = IsTrue")
  case True
  with assms obtain m v where "e = SyntaxError m v"
    using isJsonParseException_IsTrue by blast
  with True assms show ?thesis
    by (simp add: parseException_def Let_def)
next
  case False
  with assms show ?thesis
    by (simp add: parseException_def Let_def)
qed

lemma exceptionWrapper_raises:
  "isJsonParseException e = Inl t \<Longrightarrow> exceptionWrapper d loggerBody e r tr = (Inl t, tr)"
  by (simp add: exceptionWrapper_def parseException_raises)


lemma logged_append: "logged (xs @ ys) = logged xs @ logged ys"
  by (induction xs rule: logged.induct) simp_all

lemma notified_append: "notified (xs @ ys) = notified xs @ notified ys"
  by (induction xs rule: notified.induct) simp_all

lemma notified_send_issue: "notified [send_issue d] = [send_issue d]"
  by (simp add: send_issue_def)

lemma logged_send_issue: "logged [send_issue d] = []"
  by (simp add: send_issue_def)

lemma client_logged_append: "client_logged (xs @ ys) = client_logged xs @ client_logged ys"
  by (induction xs rule: client_logged.induct) simp_all

lemma client_logged_handleOnUserUnauthorized:
  "client_logged (handleOnUserUnauthorized ptype tr) = client_logged tr"
  by (simp add: handleOnUserUnauthorized_def client_logged_append)

lemma truthy_map_option: "truthy (map_option f x) \<longleftrightarrow> (\<exists>c. x = Some c \<and> f c)"
  by (cases x) simp_all

text \<open>A header named \<^verbatim>\<open>__proto__\<close> leaves no property in the logged object.\<close>

lemma headers_record_proto:
  "headers_record [(''__proto__'', x), (''content-type'', ''text/html'')] =
     [''content-type'' \<mapsto> ''text/html'']"
  by (simp add: headers_record_def)

text \<open>
  A response that is to be logged and cannot be cloned: the raise of \<^verbatim>\<open>clone\<close> is outside the
  \<^verbatim>\<open>try\<close>, the promise rejects and nothing is logged.
\<close>

lemma onResponse_clone_raises:
  assumes "status response \<noteq> 204"
    and "headers_get (headers response) ''Content-Length'' \<noteq> Some ''0''"
    and "\<not> (\<exists>c. headers_get (headers response) ''content-type'' = Some c \<and>
               str_includes c ''application/json'')"
    and "clone_text response = Inl t"
  shows "fst (onResponse ptype response schemaPath tr) = Some t \<and>
         client_logged (snd (onResponse ptype response schemaPath tr)) = client_logged tr"
  using assms
  by (auto simp add: onResponse_def Let_def client_logged_handleOnUserUnauthorized
        truthy_map_option)

lemmas fixture_defs =
  mocked_def accepts_def rejects_def test_loggerBody_def number_message_def
  undefined_message_def

lemmas wrapper_defs =
  exceptionWrapper_def parseException_def logged_body_def send_issue_def Let_def

lemmas client_defs =
  onResponse_def handleOnUserUnauthorized_def Let_def headers_get_def ascii_lower_def
  headers_record_def substring0_def MAX_RESPONSE_BODY_LOG_LENGTH_def

section \<open>The exception wrapper: logging and returning\<close>

text \<open>
  Claim C2, as the code has it. Whenever the JSON recogniser returns (for every raised
  value except a \<^verbatim>\<open>SyntaxError\<close> whose \<^verbatim>\<open>message.includes\<close> raises, so for every value whose
  message is a string), whatever the logger body, the retry count and the history, the
  wrapper returns a \<open>DriveServerWipError\<close> whose cause is what the logger returned, and the
  log holds exactly one more record than before: the caller's body with the message
  suffixed, the retry count and the logged value.
\<close>

theorem exceptionWrapper_logs_once_and_returns:
  assumes "isJsonParseException e = Inr j"
  shows "\<exists>res tr' x.
     exceptionWrapper d loggerBody e r tr = (Inr res, tr') \<and>
     logged tr' = logged tr @ [logged_body loggerBody r x] \<and>
     cause res = logger_returns d (logged_body loggerBody r x)"
  using assms
  by (auto simp add: exceptionWrapper_def parseException_returns Let_def logged_append
        logged_send_issue)

text \<open>
  A value whose \<^verbatim>\<open>String\<close> conversion raises goes through the wrapper like any other value
  that is not a \<^verbatim>\<open>SyntaxError\<close>: it is logged as it is and \<open>UNKNOWN\<close> is returned.
\<close>

theorem exceptionWrapper_logs_once_and_returns_witness:
  "isJsonParseException (NonError None ()) = Inr Falsy \<and>
   exceptionWrapper (mocked rejects rejects None) test_loggerBody (NonError None ()) 1 [] =
     (Inr \<lparr>code = UNKNOWN,
           cause = \<lparr>msg = ''Test request was not successful'', rest = Map.empty, retry = 1,
                    exc = Raw (NonError None ())\<rparr>\<rparr>,
      [Logger_error \<lparr>msg = ''Test request was not successful'', rest = Map.empty, retry = 1,
                     exc = Raw (NonError None ())\<rparr>])"
  using exceptionWrapper_logs_once_and_returns
    [of "NonError None ()" Falsy "mocked rejects rejects None" test_loggerBody 1 "[]"]
  by (simp add: wrapper_defs fixture_defs)

text \<open>
  Claim C2 as stated fails: on a \<^verbatim>\<open>SyntaxError\<close> whose message is a number,
  \<^verbatim>\<open>message.includes\<close> raises a \<^verbatim>\<open>TypeError\<close> in \<open>isJsonParseException\<close>; the wrapper raises it
  in turn, before the logger is called, and returns no typed error.
\<close>

theorem non_string_message_raises:
  "exceptionWrapper (mocked rejects rejects None) test_loggerBody
      (SyntaxError number_message ()) 1 [] =
     (Inl (TypeError ''message.includes is not a function''), [])"
  by (simp add: wrapper_defs fixture_defs)

section \<open>The exception wrapper: classification\<close>



text \<open>
  Claim C4, as the code has it. A failure that neither predicate accepts, and on which the
  JSON recogniser returns, is returned as \<open>UNKNOWN\<close>, with one log record and no other
  effect. When the recogniser returned \<^verbatim>\<open>true\<close>, the failure is a \<^verbatim>\<open>SyntaxError\<close> and the record
  holds the diagnostic context with its message; the kind is \<open>UNKNOWN\<close> all the same. When
  it did not, the record holds the raised value unchanged.
\<close>

theorem neither_abort_nor_network_is_UNKNOWN:
  assumes "\<not> isAbortError d e" and "\<not> isNetworkConnectivityError d e"
    and "isJsonParseException e = Inr j"
  shows "\<exists>x.
     exceptionWrapper d loggerBody e r tr =
       (Inr \<lparr>code = UNKNOWN, cause = logger_returns d (logged_body loggerBody r x)\<rparr>,
        tr @ [Logger_error (logged_body loggerBody r x)]) \<and>
     (j = IsTrue \<longrightarrow>
        (\<exists>m v. e = SyntaxError m v \<and> x = Context ''JSON Parse Error'' m json_hint)) \<and>
     (j \<noteq> IsTrue \<longrightarrow> x = Raw e)"
proof (cases "j = IsTrue")
  case True
  with assms obtain m v where "e = SyntaxError m v"
    using isJsonParseException_IsTrue by blast
  with True assms show ?thesis
    by (simp add: exceptionWrapper_def parseException_returns Let_def)
next
  case False
  with assms show ?thesis
    by (simp add: exceptionWrapper_def parseException_returns Let_def)
qed

theorem neither_abort_nor_network_is_UNKNOWN_witness:
  "\<not> isAbortError (mocked rejects rejects None)
       (SyntaxError (Str ''Unexpected token < in JSON'') ()) \<and>
   \<not> isNetworkConnectivityError (mocked rejects rejects None)
       (SyntaxError (Str ''Unexpected token < in JSON'') ()) \<and>
   isJsonParseException (SyntaxError (Str ''Unexpected token < in JSON'') ()) = Inr IsTrue \<and>
   exceptionWrapper (mocked rejects rejects None) test_loggerBody
       (SyntaxError (Str ''Unexpected token < in JSON'') ()) 1 [] =
     (Inr \<lparr>code = UNKNOWN,
           cause = \<lparr>msg = ''Test request was not successful'', rest = Map.empty, retry = 1,
                    exc = Context ''JSON Parse Error'' (Str ''Unexpected token < in JSON'')
                            json_hint\<rparr>\<rparr>,
      [Logger_error \<lparr>msg = ''Test request was not successful'', rest = Map.empty, retry = 1,
                     exc = Context ''JSON Parse Error'' (Str ''Unexpected token < in JSON'')
                            json_hint\<rparr>]) \<and>
   \<not> isAbortError (mocked rejects rejects None) (OtherError ''Error'' ''disk full'' ()) \<and>
   \<not> isNetworkConnectivityError (mocked rejects rejects None)
       (OtherError ''Error'' ''disk full'' ()) \<and>
   isJsonParseException (OtherError ''Error'' ''disk full'' ()) = Inr Falsy \<and>
   exceptionWrapper (mocked rejects rejects None) test_loggerBody
       (OtherError ''Error'' ''disk full'' ()) 1 [] =
     (Inr \<lparr>code = UNKNOWN,
           cause = \<lparr>msg = ''Test request was not successful'', rest = Map.empty, retry = 1,
                    exc = Raw (OtherError ''Error'' ''disk full'' ())\<rparr>\<rparr>,
      [Logger_error \<lparr>msg = ''Test request was not successful'', rest = Map.empty, retry = 1,
                     exc = Raw (OtherError ''Error'' ''disk full'' ())\<rparr>])"
  using neither_abort_nor_network_is_UNKNOWN
      [of "mocked rejects rejects None" "SyntaxError (Str ''Unexpected token < in JSON'') ()"
          IsTrue test_loggerBody 1 "[]"]
    neither_abort_nor_network_is_UNKNOWN
      [of "mocked rejects rejects None" "OtherError ''Error'' ''disk full'' ()"
          Falsy test_loggerBody 1 "[]"]
  by (simp add: wrapper_defs mocked_def rejects_def test_loggerBody_def)

text \<open>
  Claim C4 as stated fails: a \<^verbatim>\<open>SyntaxError\<close> whose message is \<^verbatim>\<open>undefined\<close>, accepted by neither
  predicate, is not returned as \<open>UNKNOWN\<close>. The wrapper raises the \<^verbatim>\<open>TypeError\<close> of
  \<^verbatim>\<open>message.includes\<close>, and the raised value is not passed to the logger. The outcome is the
  same for every choice of the predicates (\<open>exceptionWrapper_raises\<close>).
\<close>

theorem undefined_message_is_not_UNKNOWN:
  "\<not> isAbortError (mocked rejects rejects None) (SyntaxError undefined_message ()) \<and>
   \<not> isNetworkConnectivityError (mocked rejects rejects None)
       (SyntaxError undefined_message ()) \<and>
   exceptionWrapper (mocked rejects rejects None) test_loggerBody
      (SyntaxError undefined_message ()) 1 [] =
     (Inl (TypeError ''Cannot read properties of undefined (reading includes)''), [])"
  by (simp add: wrapper_defs fixture_defs)

text \<open>
  Claim C5. The connectivity issue is raised exactly when the wrapper returns a typed error
  of kind \<open>NETWORK\<close>, once, after the log record: through the sync-engine IPC in a renderer
  process and by \<^verbatim>\<open>addGeneralIssue\<close> otherwise. The kind is \<open>NETWORK\<close> exactly when the network
  predicate accepts the failure and the JSON recogniser returns; when the recogniser
  raises, the wrapper raises before any effect, so no issue is raised and no kind returned.
\<close>

theorem notification_iff_NETWORK:
  "\<exists>out tr'.
     exceptionWrapper d loggerBody e r tr = (out, tr') \<and>
     notified tr' = notified tr @
       (if returned_code out = Some NETWORK then [send_issue d] else []) \<and>
     (returned_code out = Some NETWORK \<longleftrightarrow>
        isNetworkConnectivityError d e \<and> (\<exists>j. isJsonParseException e = Inr j))"
proof (cases "isJsonParseException e")
  case (Inl t)
  then show ?thesis
    by (simp add: exceptionWrapper_raises)
next
  case (Inr j)
  then show ?thesis
    by (simp add: exceptionWrapper_def parseException_returns Let_def notified_append
          notified_send_issue)
qed

theorem notification_iff_NETWORK_witness:
  "exceptionWrapper (mocked rejects accepts (Some ''renderer'')) test_loggerBody
       (OtherError ''TypeError'' ''fetch failed'' ()) 1 [] =
     (Inr \<lparr>code = NETWORK,
           cause = \<lparr>msg = ''Test request was not successful'', rest = Map.empty, retry = 1,
                    exc = Parsed None\<rparr>\<rparr>,
      [Logger_error \<lparr>msg = ''Test request was not successful'', rest = Map.empty, retry = 1,
                     exc = Parsed None\<rparr>,
       Ipc_send ''ADD_GENERAL_ISSUE'' ''NETWORK_CONNECTIVITY_ERROR'']) \<and>
   send_issue (mocked rejects accepts (Some ''renderer'')) =
     Ipc_send ''ADD_GENERAL_ISSUE'' ''NETWORK_CONNECTIVITY_ERROR'' \<and>
   exceptionWrapper (mocked rejects accepts (Some ''renderer'')) test_loggerBody
       (SyntaxError number_message ()) 1 [] =
     (Inl (TypeError ''message.includes is not a function''), [])"
  using notification_iff_NETWORK
      [of "mocked rejects accepts (Some ''renderer'')" test_loggerBody
          "OtherError ''TypeError'' ''fetch failed'' ()" 1 "[]"]
    notification_iff_NETWORK
      [of "mocked rejects accepts (Some ''renderer'')" test_loggerBody
          "SyntaxError number_message ()" 1 "[]"]
  by (simp add: wrapper_defs fixture_defs)



text \<open>
  Claim C7, as the code has it. What the wrapper does depends on the raised value alone
  (through the imported predicates): two runs on the same value, whatever the logger body,
  the retry count and the history, both raise the same error or both return a typed error
  of the same kind, log the same value and raise the same issue. The wrapper is not free of
  effects: a run that returns appends one log record; a run that raises appends nothing.
\<close>

theorem same_failure_same_outcome:
  "\<exists>out out' new new'.
     exceptionWrapper d loggerBody e r tr = (out, tr @ new) \<and>
     exceptionWrapper d loggerBody' e r' tr' = (out', tr' @ new') \<and>
     map_sum id code out = map_sum id code out' \<and>
     map exc (logged new) = map exc (logged new') \<and>
     notified new = notified new' \<and>
     length (logged new) = (if returned_code out = None then 0 else 1)"
proof (cases "isJsonParseException e")
  case (Inl t)
  then show ?thesis
    by (simp add: exceptionWrapper_raises)
next
  case (Inr j)
  then show ?thesis
    by (simp add: exceptionWrapper_def parseException_returns Let_def logged_body_def
          notified_send_issue logged_send_issue)
qed

theorem same_failure_same_outcome_witness:
  "exceptionWrapper (mocked rejects rejects None) test_loggerBody
       (OtherError ''Error'' ''boom'' ()) 1 [] =
     (Inr \<lparr>code = UNKNOWN,
           cause = \<lparr>msg = ''Test request was not successful'', rest = Map.empty, retry = 1,
                    exc = Raw (OtherError ''Error'' ''boom'' ())\<rparr>\<rparr>,
      [Logger_error \<lparr>msg = ''Test request was not successful'', rest = Map.empty, retry = 1,
                     exc = Raw (OtherError ''Error'' ''boom'' ())\<rparr>]) \<and>
   exceptionWrapper (mocked rejects rejects None) \<lparr>msg = ''Upload'', rest = Map.empty\<rparr>
       (OtherError ''Error'' ''boom'' ()) 2
       [Logger_error \<lparr>msg = ''Test request was not successful'', rest = Map.empty, retry = 1,
                      exc = Raw (OtherError ''Error'' ''boom'' ())\<rparr>] =
     (Inr \<lparr>code = UNKNOWN,
           cause = \<lparr>msg = ''Upload was not successful'', rest = Map.empty, retry = 2,
                    exc = Raw (OtherError ''Error'' ''boom'' ())\<rparr>\<rparr>,
      [Logger_error \<lparr>msg = ''Test request was not successful'', rest = Map.empty, retry = 1,
                     exc = Raw (OtherError ''Error'' ''boom'' ())\<rparr>,
       Logger_error \<lparr>msg = ''Upload was not successful'', rest = Map.empty, retry = 2,
                     exc = Raw (OtherError ''Error'' ''boom'' ())\<rparr>])"
  using same_failure_same_outcome
    [of "mocked rejects rejects None" test_loggerBody "OtherError ''Error'' ''boom'' ()" 1 "[]"
        "\<lparr>msg = ''Upload'', rest = Map.empty\<rparr>" 2
        "[Logger_error \<lparr>msg = ''Test request was not successful'', rest = Map.empty, retry = 1,
                        exc = Raw (OtherError ''Error'' ''boom'' ())\<rparr>]"]
  by (simp add: wrapper_defs fixture_defs)

text \<open>
  Claim C7 as stated fails: a run that starts with nothing logged ends with a record in the
  log, so the wrapper has an effect besides its result.
\<close>

theorem exceptionWrapper_writes_log:
  "exceptionWrapper (mocked rejects rejects None) test_loggerBody
       (OtherError ''Error'' ''connection lost'' ()) 1 [] =
     (Inr \<lparr>code = UNKNOWN,
           cause = \<lparr>msg = ''Test request was not successful'', rest = Map.empty, retry = 1,
                    exc = Raw (OtherError ''Error'' ''connection lost'' ())\<rparr>\<rparr>,
      [Logger_error \<lparr>msg = ''Test request was not successful'', rest = Map.empty, retry = 1,
                     exc = Raw (OtherError ''Error'' ''connection lost'' ())\<rparr>])"
  by (simp add: wrapper_defs fixture_defs)

section \<open>The exception wrapper: JSON parse failures\<close>



section \<open>The HTTP client middleware\<close>

text \<open>
  Claim C8. On a response with status 401 the first thing the middleware does is to emit
  \<^verbatim>\<open>USER_LOGGED_OUT\<close>, through the sync-engine IPC in a renderer process and through the
  event bus otherwise. This is the only event; whatever follows it is log records, so the
  event does not depend on the content type or the body and precedes any logging.
\<close>

theorem unauthorized_emits_USER_LOGGED_OUT:
  assumes "status response = 401"
  shows "\<exists>out logs.
     onResponse ptype response schemaPath tr =
       (out, tr @ (if ptype = Some ''renderer'' then Ipc_emit ''USER_LOGGED_OUT''
                   else EventBus_emit ''USER_LOGGED_OUT'') # logs) \<and>
     client_emitted logs = []"
  using assms
  by (auto simp add: onResponse_def handleOnUserUnauthorized_def Let_def split: sum.splits)

theorem unauthorized_emits_USER_LOGGED_OUT_witness:
  "status (html_error_response\<lparr>status := 401, statusText := ''Unauthorized''\<rparr>) = 401 \<and>
   onResponse (Some ''renderer'')
       (html_error_response\<lparr>status := 401, statusText := ''Unauthorized''\<rparr>)
       ''/users/refresh'' [] =
     (None,
      [Ipc_emit ''USER_LOGGED_OUT'',
       Client_logger_error
         (Unexpected_response_content_type ''/users/refresh'' 401 ''Unauthorized''
            (Some ''text/html'')
            [''content-type'' \<mapsto> ''text/html'', ''x-custom-header'' \<mapsto> ''test-value'']
            ''<!doctype html><html>Error page</html>'')]) \<and>
   onResponse None (json_response\<lparr>status := 401, statusText := ''Unauthorized''\<rparr>)
       ''/users/refresh'' [] =
     (None, [EventBus_emit ''USER_LOGGED_OUT''])"
  using unauthorized_emits_USER_LOGGED_OUT
    [of "html_error_response\<lparr>status := 401, statusText := ''Unauthorized''\<rparr>"
        "Some ''renderer''" "''/users/refresh''" "[]"]
  by (simp add: client_defs html_error_response_def json_response_def)

text \<open>
  Claim C9. A response with status 204, or whose \<^verbatim>\<open>Content-Length\<close> header is \<^verbatim>\<open>'0'\<close>, leaves
  the log as it was, whatever its content type, its status otherwise, its body and the
  process type; the middleware does not touch the body and resolves.
\<close>

theorem empty_response_not_logged:
  assumes "status response = 204 \<or>
           headers_get (headers response) ''Content-Length'' = Some ''0''"
  shows "client_logged (snd (onResponse ptype response schemaPath tr)) = client_logged tr \<and>
         fst (onResponse ptype response schemaPath tr) = None"
  using assms
  by (auto simp add: onResponse_def Let_def client_logged_handleOnUserUnauthorized)

text \<open>The tests with status 204 and with \<^verbatim>\<open>content-length: 0\<close>, both of type \<^verbatim>\<open>text/plain\<close>.\<close>

theorem empty_response_not_logged_witness:
  "status no_content_response = 204 \<and>
   headers_get (headers zero_length_response) ''Content-Length'' = Some ''0'' \<and>
   onResponse None no_content_response ''/users/refresh'' [] = (None, []) \<and>
   onResponse None zero_length_response ''/users/refresh'' [] = (None, [])"
  using empty_response_not_logged [of no_content_response None "''/users/refresh''" "[]"]
    empty_response_not_logged [of zero_length_response None "''/users/refresh''" "[]"]
  by (simp add: client_defs no_content_response_def zero_length_response_def)

text \<open>
  Claim C3, as the code has it. Take a response that is not empty (status other than 204
  and no \<^verbatim>\<open>Content-Length\<close> of \<^verbatim>\<open>'0'\<close>), whose content type is not JSON (the header is absent or
  does not contain \<^verbatim>\<open>application/json\<close>) and which can be cloned. The middleware logs exactly
  one record. When the body can be read, the record holds the endpoint, the status, the
  status text, the content type, the headers and the first 500 characters of the body.
  When reading the body fails, the record holds the endpoint and the error instead. A
  response with a JSON content type is not logged.
\<close>

theorem onResponse_logs_non_json:
  "(status response \<noteq> 204 \<and>
    headers_get (headers response) ''Content-Length'' \<noteq> Some ''0'' \<and>
    \<not> (\<exists>c. headers_get (headers response) ''content-type'' = Some c \<and>
            str_includes c ''application/json'') \<longrightarrow>
      (\<forall>responseBody. clone_text response = Inr (Inr responseBody) \<longrightarrow>
         client_logged (snd (onResponse ptype response schemaPath tr)) =
           client_logged tr @
             [Unexpected_response_content_type schemaPath (status response)
                (statusText response)
                (headers_get (headers response) ''content-type'')
                (headers_record (headers response))
                (substring0 responseBody MAX_RESPONSE_BODY_LOG_LENGTH)] \<and>
         length (substring0 responseBody MAX_RESPONSE_BODY_LOG_LENGTH) \<le> 500 \<and>
         prefix (substring0 responseBody MAX_RESPONSE_BODY_LOG_LENGTH) responseBody) \<and>
      (\<forall>error. clone_text response = Inr (Inl error) \<longrightarrow>
         client_logged (snd (onResponse ptype response schemaPath tr)) =
           client_logged tr @ [Failed_to_read_response_body schemaPath error])) \<and>
   ((\<exists>c. headers_get (headers response) ''content-type'' = Some c \<and>
         str_includes c ''application/json'') \<longrightarrow>
      client_logged (snd (onResponse ptype response schemaPath tr)) = client_logged tr)"
  by (auto simp add: onResponse_def Let_def client_logged_handleOnUserUnauthorized
        client_logged_append substring0_def MAX_RESPONSE_BODY_LOG_LENGTH_def take_is_prefix
        truthy_map_option)

text \<open>
  The tests \<^verbatim>\<open>should log non-JSON error responses\<close> and \<^verbatim>\<open>should not log JSON responses\<close>.
\<close>

theorem onResponse_logs_non_json_witness:
  "status html_error_response \<noteq> 204 \<and>
   headers_get (headers html_error_response) ''Content-Length'' = None \<and>
   headers_get (headers html_error_response) ''content-type'' = Some ''text/html'' \<and>
   \<not> str_includes ''text/html'' ''application/json'' \<and>
   onResponse None html_error_response ''/users/refresh'' [] =
     (None,
      [Client_logger_error
         (Unexpected_response_content_type ''/users/refresh'' 500 ''Internal Server Error''
            (Some ''text/html'')
            [''content-type'' \<mapsto> ''text/html'', ''x-custom-header'' \<mapsto> ''test-value'']
            ''<!doctype html><html>Error page</html>'')]) \<and>
   headers_get (headers json_response) ''content-type'' = Some ''application/json'' \<and>
   str_includes ''application/json'' ''application/json'' \<and>
   onResponse None json_response ''/users/refresh'' [] = (None, [])"
  using onResponse_logs_non_json [of html_error_response None "''/users/refresh''" "[]"]
    onResponse_logs_non_json [of json_response None "''/users/refresh''" "[]"]
  by (simp add: client_defs html_error_response_def json_response_def)

text \<open>
  Claim C3 as stated fails: for the response of the test
  \<^verbatim>\<open>should handle errors when reading response body\<close>, which is not empty and of type
  \<^verbatim>\<open>text/html\<close>, the one record logged holds neither status, status text, content type,
  headers nor body.
\<close>

theorem unreadable_body_logs_read_failure:
  "status unreadable_response = 500 \<and>
   headers_get (headers unreadable_response) ''Content-Length'' = None \<and>
   headers_get (headers unreadable_response) ''content-type'' = Some ''text/html'' \<and>
   onResponse None unreadable_response ''/users/refresh'' [] =
     (None,
      [Client_logger_error
         (Failed_to_read_response_body ''/users/refresh'' (Error ''Failed to read body''))])"
  by (simp add: client_defs unreadable_response_def)

end
